theory Spec2Isabelle
  imports Main
begin

section \<open>Documents, request values and errors\<close>

text \<open>
  An ObjectId is named by a natural number. A path parameter arrives as a string; what the
  controllers ask of it is whether mongoose can cast it to an ObjectId
  (\<open>isValidObjectId\<close>, and the cast inside \<open>findById\<close>), so a parameter is either a
  well-formed id or a malformed string.
\<close>

type_synonym oid = nat

datatype id_param = WellFormed oid | Malformed string

definition isValidObjectId :: "id_param \<Rightarrow> bool" where
  "isValidObjectId p = (case p of WellFormed _ \<Rightarrow> True | Malformed _ \<Rightarrow> False)"

text \<open>
  What a handler can throw: \<open>new ApiError(status, message)\<close>, the CastError mongoose
  raises when a query is given an id it cannot cast, and the TypeError JavaScript raises
  when a property of \<open>undefined\<close> is read.
\<close>

datatype error = ApiError nat string | CastError | TypeError

text \<open>
  Modelled from the spec: the document schemas (the files under models/ are not among the
  sources). Only the fields the two controllers read or write are kept. A field the
  controllers guard with \<open>?.\<close> may be missing and is an option.
\<close>

record user =
  u_id :: oid
  username :: string
  fullName :: string
  avatar_url :: string

record video =
  v_id :: oid
  v_owner :: "oid option"
  isPublished :: bool
  views :: int
  title :: string
  v_description :: string
  duration :: nat
  videoFile_url :: string
  thumbnail_url :: string
  v_createdAt :: nat

record comment =
  c_id :: oid
  content :: string
  c_owner :: "oid option"
  c_video :: oid
  c_createdAt :: nat
  c_updatedAt :: nat

record like =
  l_comment :: "oid option"
  l_video :: "oid option"
  likedBy :: oid

record playlist =
  p_id :: oid
  p_name :: string
  p_description :: string
  p_owner :: "oid option"
  p_videos :: "oid list"
  p_createdAt :: nat
  p_updatedAt :: nat

text \<open>The store: one list per collection, in natural (insertion) order.\<close>

record store =
  users :: "user list"
  videos :: "video list"
  comments :: "comment list"
  likes :: "like list"
  playlists :: "playlist list"

section \<open>The mongoose calls the controllers make\<close>

text \<open>\<open>Model.findById(id)\<close>: a CastError for a malformed id, otherwise the document or null.\<close>

definition findById :: "('a \<Rightarrow> oid) \<Rightarrow> id_param \<Rightarrow> 'a list \<Rightarrow> error + 'a option" where
  "findById key p xs =
     (case p of
        Malformed _ \<Rightarrow> Inl CastError
      | WellFormed i \<Rightarrow> Inr (find (\<lambda>d. key d = i) xs))"

text \<open>\<open>new mongoose.Types.ObjectId(id)\<close> and the cast of an id written into a document.\<close>

definition ObjectId :: "id_param \<Rightarrow> error + oid" where
  "ObjectId p = (case p of Malformed _ \<Rightarrow> Inl CastError | WellFormed i \<Rightarrow> Inr i)"

fun updateOne :: "('a \<Rightarrow> bool) \<Rightarrow> ('a \<Rightarrow> 'a) \<Rightarrow> 'a list \<Rightarrow> 'a list" where
  "updateOne P f [] = []"
| "updateOne P f (x # xs) = (if P x then f x # xs else x # updateOne P f xs)"

fun deleteOne :: "('a \<Rightarrow> bool) \<Rightarrow> 'a list \<Rightarrow> 'a list" where
  "deleteOne P [] = []"
| "deleteOne P (x # xs) = (if P x then xs else x # deleteOne P xs)"

text \<open>
  \<open>Model.findByIdAndUpdate(id, update, {new: true})\<close>: the first document with that id is
  updated and returned as updated; null when there is none.
\<close>

definition findByIdAndUpdate ::
  "('a \<Rightarrow> oid) \<Rightarrow> oid \<Rightarrow> ('a \<Rightarrow> 'a) \<Rightarrow> 'a list \<Rightarrow> 'a option \<times> 'a list" where
  "findByIdAndUpdate key i f xs =
     (map_option f (find (\<lambda>d. key d = i) xs), updateOne (\<lambda>d. key d = i) f xs)"

text \<open>\<open>Model.create(doc)\<close>: the document is appended and returned.\<close>

definition create :: "'a \<Rightarrow> 'a list \<Rightarrow> 'a option \<times> 'a list" where
  "create d xs = (Some d, xs @ [d])"

text \<open>JavaScript's \<open>!v\<close> for a body field that is a string or missing.\<close>

definition falsy :: "string option \<Rightarrow> bool" where
  "falsy v = (case v of None \<Rightarrow> True | Some str \<Rightarrow> str = [])"

text \<open>\<open>xs[0]\<close>, and the aggregation operator \<open>$first\<close>: nothing for an empty array.\<close>

definition first :: "'a list \<Rightarrow> 'a option" where
  "first xs = (case xs of [] \<Rightarrow> None | x # _ \<Rightarrow> Some x)"

text \<open>
  The values a \<open>$lookup\<close> compares. A field a document does not have counts as null, on
  both sides of the join.
\<close>

datatype bson = BNull | BOid oid | BStr string

definition oid_value :: "oid option \<Rightarrow> bson" where
  "oid_value v = (case v of None \<Rightarrow> BNull | Some i \<Rightarrow> BOid i)"

definition user_field :: "string \<Rightarrow> user \<Rightarrow> bson" where
  "user_field f u =
     (if f = ''_id'' then BOid (u_id u)
      else if f = ''username'' then BStr (username u)
      else if f = ''fullName'' then BStr (fullName u)
      else BNull)"

text \<open>\<open>$lookup\<close> with a scalar local field: the foreign documents whose field equals it.\<close>

definition lookup :: "bson \<Rightarrow> ('b \<Rightarrow> bson) \<Rightarrow> 'b list \<Rightarrow> 'b list" where
  "lookup local foreignField frm = filter (\<lambda>d. foreignField d = local) frm"

text \<open>
  \<open>$lookup\<close> with an array of ids as local field and \<open>_id\<close> as foreign field: the foreign
  documents whose id is an element of the array, in the foreign collection's order.
\<close>

definition lookup_ids :: "oid list \<Rightarrow> ('b \<Rightarrow> oid) \<Rightarrow> 'b list \<Rightarrow> 'b list" where
  "lookup_ids local key frm = filter (\<lambda>d. key d \<in> set local) frm"

record owner_view =
  ov_username :: string
  ov_fullName :: string
  ov_avatar_url :: string

definition project_owner :: "user \<Rightarrow> owner_view" where
  "project_owner u =
     \<lparr>ov_username = username u, ov_fullName = fullName u, ov_avatar_url = avatar_url u\<rparr>"

section \<open>comment.controller.js\<close>

subsection \<open>getVideoComments\<close>

text \<open>
  \<open>const { page = 1, limit = 10 } = req.query\<close>, then \<open>parseInt(page, 10)\<close> and
  \<open>parseInt(limit, 10)\<close>. A query value is whatever the request carries (the type
  \<open>'q\<close>). \<open>parseInt\<close> belongs to the JavaScript runtime and yields a floating-point
  number or NaN; it is a parameter here, and so is the type \<open>'n\<close> of what it yields. What
  it is given is either a value of the query or the literal of a destructuring default,
  which replaces a query parameter only when that is missing.
\<close>

datatype 'q parse_arg = Literal nat | FromQuery 'q

record 'n options =
  page :: 'n
  limit :: 'n

definition pagination_options ::
  "('q parse_arg \<Rightarrow> 'n) \<Rightarrow> 'q option \<Rightarrow> 'q option \<Rightarrow> 'n options" where
  "pagination_options parseInt query_page query_limit =
     \<lparr>page = parseInt (case query_page of None \<Rightarrow> Literal 1 | Some q \<Rightarrow> FromQuery q),
      limit = parseInt (case query_limit of None \<Rightarrow> Literal 10 | Some q \<Rightarrow> FromQuery q)\<rparr>"

record comment_view =
  cv_id :: oid
  cv_content :: string
  cv_createdAt :: nat
  cv_likesCount :: nat
  cv_owner :: "owner_view option"
  cv_isLiked :: bool

text \<open>
  The stages that work on one comment: the two \<open>$lookup\<close>s (the first with the foreign
  field exactly as the source writes it), \<open>$addFields\<close> and \<open>$project\<close> (which keeps
  \<open>_id\<close>).
\<close>

definition comment_stages :: "oid option \<Rightarrow> store \<Rightarrow> comment \<Rightarrow> comment_view" where
  "comment_stages req_user s c =
     (let owner = lookup (oid_value (c_owner c)) (user_field ''_id,'') (users s);
          likes = filter (\<lambda>l. l_comment l = Some (c_id c)) (likes s);
          likesCount = length likes;
          owner1 = first owner;
          isLiked = (case req_user of None \<Rightarrow> False | Some u \<Rightarrow> u \<in> set (map likedBy likes))
      in \<lparr>cv_id = c_id c, cv_content = content c, cv_createdAt = c_createdAt c,
          cv_likesCount = likesCount, cv_owner = map_option project_owner owner1,
          cv_isLiked = isLiked\<rparr>)"

text \<open>The whole pipeline: \<open>$match\<close> on the video, the stages above, \<open>$sort\<close> newest first.\<close>

definition commentAggregate :: "oid option \<Rightarrow> oid \<Rightarrow> store \<Rightarrow> comment_view list" where
  "commentAggregate req_user videoId s =
     sort_key (\<lambda>v. - int (cv_createdAt v))
       (map (comment_stages req_user s) (filter (\<lambda>c. c_video c = videoId) (comments s)))"

text \<open>
  The handler. \<open>aggregatePaginate\<close> belongs to a plug-in outside the repository; it is a
  parameter, given the pipeline's result and the options. What it does with the options
  is its own matter and is not modelled.
\<close>

definition getVideoComments ::
  "('q parse_arg \<Rightarrow> 'n) \<Rightarrow> (comment_view list \<Rightarrow> 'n options \<Rightarrow> 'r) \<Rightarrow> oid option \<Rightarrow>
   id_param \<Rightarrow> 'q option \<Rightarrow> 'q option \<Rightarrow> store \<Rightarrow> error + 'r" where
  "getVideoComments parseInt aggregatePaginate req_user videoId query_page query_limit s =
     (case findById v_id videoId (videos s) of
        Inl e \<Rightarrow> Inl e
      | Inr None \<Rightarrow> Inl (ApiError 404 ''Video not found'')
      | Inr (Some video) \<Rightarrow>
          (case ObjectId videoId of
             Inl e \<Rightarrow> Inl e
           | Inr vid \<Rightarrow>
               Inr (aggregatePaginate (commentAggregate req_user vid s)
                      (pagination_options parseInt query_page query_limit))))"

subsection \<open>addComment, updateComment, deleteComment\<close>

text \<open>
  A mutation takes the store and returns its outcome together with the store it leaves.
  \<open>new_id\<close> is the id the driver gives a created document and \<open>now\<close> the time of the
  request (for the timestamps).
\<close>

definition addComment ::
  "oid \<Rightarrow> nat \<Rightarrow> oid option \<Rightarrow> id_param \<Rightarrow> string option \<Rightarrow> store \<Rightarrow>
   (error + comment) \<times> store" where
  "addComment new_id now req_user videoId body_content s =
     (if falsy body_content then (Inl (ApiError 400 ''content can not be empty''), s)
      else case findById v_id videoId (videos s) of
        Inl e \<Rightarrow> (Inl e, s)
      | Inr None \<Rightarrow> (Inl (ApiError 400 ''video not found''), s)
      | Inr (Some video) \<Rightarrow>
          (case ObjectId videoId of
             Inl e \<Rightarrow> (Inl e, s)
           | Inr vid \<Rightarrow>
               (case create \<lparr>c_id = new_id,
                              content = (case body_content of None \<Rightarrow> [] | Some str \<Rightarrow> str),
                              c_owner = req_user, c_video = vid,
                              c_createdAt = now, c_updatedAt = now\<rparr> (comments s) of
                  (None, cs) \<Rightarrow>
                    (Inl (ApiError 500 ''Failed to add comment please try again''),
                     s\<lparr>comments := cs\<rparr>)
                | (Some comment, cs) \<Rightarrow> (Inr comment, s\<lparr>comments := cs\<rparr>))))"

definition updateComment ::
  "nat \<Rightarrow> oid option \<Rightarrow> id_param \<Rightarrow> string option \<Rightarrow> store \<Rightarrow> (error + comment) \<times> store" where
  "updateComment now req_user commentId body_content s =
     (if falsy body_content then (Inl (ApiError 400 ''content is required to update''), s)
      else case findById c_id commentId (comments s) of
        Inl e \<Rightarrow> (Inl e, s)
      | Inr None \<Rightarrow> (Inl (ApiError 400 ''Comment not found''), s)
      | Inr (Some comment) \<Rightarrow>
          (case c_owner comment of
             None \<Rightarrow> (Inl TypeError, s)
           | Some owner \<Rightarrow>
               if Some owner \<noteq> req_user
               then (Inl (ApiError 400 ''only comment owner can edit their comment''), s)
               else
                 (case findByIdAndUpdate c_id (c_id comment)
                         (\<lambda>c. c\<lparr>content := (case body_content of None \<Rightarrow> [] | Some str \<Rightarrow> str),
                                c_updatedAt := now\<rparr>) (comments s) of
                    (None, cs) \<Rightarrow>
                      (Inl (ApiError 500 ''Failed to edit comment please try again''),
                       s\<lparr>comments := cs\<rparr>)
                  | (Some updatedComment, cs) \<Rightarrow> (Inr updatedComment, s\<lparr>comments := cs\<rparr>))))"

text \<open>
  \<open>Like.updateMany({comment: commentId, likedBy: req.user})\<close>. The call has one argument.
  mongoose reads a sole object argument as the update document, with no filter: every
  Like gets these two fields set. (Read as a filter with nothing to update, the call
  would change nothing.) Either way it is an update: no document is removed by it.
\<close>

definition Like_updateMany :: "oid \<Rightarrow> oid option \<Rightarrow> like list \<Rightarrow> like list" where
  "Like_updateMany commentId req_user ls =
     map (\<lambda>l. l\<lparr>l_comment := Some commentId,
               likedBy := (case req_user of None \<Rightarrow> likedBy l | Some u \<Rightarrow> u)\<rparr>) ls"

definition deleteComment ::
  "oid option \<Rightarrow> id_param \<Rightarrow> store \<Rightarrow> (error + id_param) \<times> store" where
  "deleteComment req_user commentId s =
     (case findById c_id commentId (comments s) of
        Inl e \<Rightarrow> (Inl e, s)
      | Inr None \<Rightarrow> (Inl (ApiError 404 ''Comment not found''), s)
      | Inr (Some comment) \<Rightarrow>
          (case c_owner comment of
             None \<Rightarrow> (Inl TypeError, s)
           | Some owner \<Rightarrow>
               if Some owner \<noteq> req_user
               then (Inl (ApiError 400 ''only comment owner can delete their comment''), s)
               else
                 (let s1 = s\<lparr>comments := deleteOne (\<lambda>c. c_id c = c_id comment) (comments s)\<rparr>;
                      s2 = s1\<lparr>likes := Like_updateMany (c_id comment) req_user (likes s1)\<rparr>
                  in (Inr commentId, s2))))"

section \<open>playlist.controller.js\<close>

subsection \<open>createPlaylist\<close>

definition createPlaylist ::
  "oid \<Rightarrow> nat \<Rightarrow> oid option \<Rightarrow> string option \<Rightarrow> string option \<Rightarrow> store \<Rightarrow>
   (error + playlist) \<times> store" where
  "createPlaylist new_id now req_user body_name body_description s =
     (if falsy body_name \<or> falsy body_description
      then (Inl (ApiError 400 ''name and description both are required''), s)
      else
        (case create \<lparr>p_id = new_id,
                       p_name = (case body_name of None \<Rightarrow> [] | Some str \<Rightarrow> str),
                       p_description = (case body_description of None \<Rightarrow> [] | Some str \<Rightarrow> str),
                       p_owner = req_user, p_videos = [],
                       p_createdAt = now, p_updatedAt = now\<rparr> (playlists s) of
           (None, ps) \<Rightarrow> (Inl (ApiError 500 ''failed to create playlist''), s\<lparr>playlists := ps\<rparr>)
         | (Some playlist, ps) \<Rightarrow> (Inr playlist, s\<lparr>playlists := ps\<rparr>)))"

subsection \<open>getPlaylistById\<close>

record video_view =
  vv_id :: oid
  vv_videoFile_url :: string
  vv_thumbnail_url :: string
  vv_title :: string
  vv_description :: string
  vv_duration :: nat
  vv_createdAt :: nat
  vv_views :: int

definition project_video :: "video \<Rightarrow> video_view" where
  "project_video v =
     \<lparr>vv_id = v_id v, vv_videoFile_url = videoFile_url v, vv_thumbnail_url = thumbnail_url v,
      vv_title = title v, vv_description = v_description v, vv_duration = duration v,
      vv_createdAt = v_createdAt v, vv_views = views v\<rparr>"

record playlist_detail =
  pd_id :: oid
  pd_name :: string
  pd_description :: string
  pd_createdAt :: nat
  pd_updatedAt :: nat
  pd_totalVideos :: nat
  pd_totalViews :: int
  pd_videos :: "video_view list"
  pd_owner :: "owner_view option"

text \<open>
  The second \<open>$match\<close>, \<open>{"videos.isPublished": true}\<close>, reads a field of the elements of
  an array: the playlist document passes when some element of its joined \<open>videos\<close> has the
  field true. The array itself goes on unchanged.
\<close>

definition match_videos_isPublished :: "video list \<Rightarrow> bool" where
  "match_videos_isPublished vs = list_ex isPublished vs"

text \<open>The stages after it: the owner \<open>$lookup\<close>, \<open>$addFields\<close> and \<open>$project\<close>.\<close>

definition playlist_stages :: "store \<Rightarrow> playlist \<Rightarrow> video list \<Rightarrow> playlist_detail" where
  "playlist_stages s p vs =
     (let owner = lookup (oid_value (p_owner p)) (user_field ''_id'') (users s);
          totalVideos = length vs;
          totalViews = sum_list (map views vs);
          owner1 = first owner
      in \<lparr>pd_id = p_id p, pd_name = p_name p, pd_description = p_description p,
          pd_createdAt = p_createdAt p, pd_updatedAt = p_updatedAt p,
          pd_totalVideos = totalVideos, pd_totalViews = totalViews,
          pd_videos = map project_video vs, pd_owner = map_option project_owner owner1\<rparr>)"

text \<open>
  The pipeline: \<open>$match\<close> on \<open>_id\<close>, the videos \<open>$lookup\<close>, the \<open>$match\<close> on the joined
  videos, then the stages above.
\<close>

definition playlistAggregate :: "oid \<Rightarrow> store \<Rightarrow> playlist_detail list" where
  "playlistAggregate playlistId s =
     map (\<lambda>(p, vs). playlist_stages s p vs)
       (filter (\<lambda>(p, vs). match_videos_isPublished vs)
          (map (\<lambda>p. (p, lookup_ids (p_videos p) v_id (videos s)))
             (filter (\<lambda>p. p_id p = playlistId) (playlists s))))"

definition getPlaylistById :: "id_param \<Rightarrow> store \<Rightarrow> error + playlist_detail option" where
  "getPlaylistById playlistId s =
     (if \<not> isValidObjectId playlistId then Inl (ApiError 400 ''playlistId is invalid'')
      else case findById p_id playlistId (playlists s) of
        Inl e \<Rightarrow> Inl e
      | Inr None \<Rightarrow> Inl (ApiError 404 ''playlist not found'')
      | Inr (Some playlist) \<Rightarrow>
          (case ObjectId playlistId of
             Inl e \<Rightarrow> Inl e
           | Inr pid \<Rightarrow> Inr (first (playlistAggregate pid s))))"

subsection \<open>addVideoToPlaylist, removeVideoFromPlaylist\<close>

text \<open>
  \<open>a?.toString() && b?.toString()\<close> for two ids that may be missing: the string of an
  ObjectId is never empty, so the value is \<open>undefined\<close> when \<open>a\<close> is missing and
  \<open>b?.toString()\<close> otherwise. Two id strings are equal exactly when the ids are.
\<close>

definition js_and :: "oid option \<Rightarrow> oid option \<Rightarrow> oid option" where
  "js_and a b = (case a of None \<Rightarrow> None | Some _ \<Rightarrow> b)"

text \<open>
  The update operators \<open>$addToSet\<close> and \<open>$pull\<close> on an array of ids. In the two
  handlers below the update is addressed by \<open>p_id pl\<close> and writes \<open>v_id vd\<close>: the
  playlist and the video were found under the ids of the request, so these are the
  request's \<open>playlistId\<close> and \<open>videoId\<close> (and \<open>removeVideoFromPlaylist\<close> passes the
  playlist document itself, which mongoose casts to its \<open>_id\<close>).
\<close>

definition addToSet :: "oid \<Rightarrow> oid list \<Rightarrow> oid list" where
  "addToSet v vs = (if v \<in> set vs then vs else vs @ [v])"

definition pull :: "oid \<Rightarrow> oid list \<Rightarrow> oid list" where
  "pull v vs = filter (\<lambda>x. x \<noteq> v) vs"

definition addVideoToPlaylist ::
  "nat \<Rightarrow> oid option \<Rightarrow> id_param \<Rightarrow> id_param \<Rightarrow> store \<Rightarrow> (error + playlist) \<times> store" where
  "addVideoToPlaylist now req_user playlistId videoId s =
     (if \<not> (isValidObjectId playlistId \<or> isValidObjectId videoId)
      then (Inl (ApiError 400 ''playlistId or videoId is invalid''), s)
      else case findById p_id playlistId (playlists s) of
        Inl e \<Rightarrow> (Inl e, s)
      | Inr playlist \<Rightarrow>
      (case findById v_id videoId (videos s) of
        Inl e \<Rightarrow> (Inl e, s)
      | Inr video \<Rightarrow>
      (case playlist of
        None \<Rightarrow> (Inl (ApiError 400 ''playlist not found''), s)
      | Some pl \<Rightarrow>
      (case video of
        None \<Rightarrow> (Inl (ApiError 400 ''video not found''), s)
      | Some vd \<Rightarrow>
          if js_and (p_owner pl) (v_owner vd) \<noteq> req_user
          then (Inl (ApiError 400 ''only owner can add video to thier playlist''), s)
          else
            (case findByIdAndUpdate p_id (p_id pl)
                    (\<lambda>p. p\<lparr>p_videos := addToSet (v_id vd) (p_videos p), p_updatedAt := now\<rparr>)
                    (playlists s) of
               (None, ps) \<Rightarrow>
                 (Inl (ApiError 500 ''failed to add video to playlist please try again''),
                  s\<lparr>playlists := ps\<rparr>)
             | (Some updatedPlaylist, ps) \<Rightarrow> (Inr updatedPlaylist, s\<lparr>playlists := ps\<rparr>))))))"

definition removeVideoFromPlaylist ::
  "nat \<Rightarrow> oid option \<Rightarrow> id_param \<Rightarrow> id_param \<Rightarrow> store \<Rightarrow>
   (error + playlist option) \<times> store" where
  "removeVideoFromPlaylist now req_user playlistId videoId s =
     (if \<not> (isValidObjectId playlistId \<or> isValidObjectId videoId)
      then (Inl (ApiError 400 ''playlistId or videoId is invalid''), s)
      else case findById p_id playlistId (playlists s) of
        Inl e \<Rightarrow> (Inl e, s)
      | Inr playlist \<Rightarrow>
      (case findById v_id videoId (videos s) of
        Inl e \<Rightarrow> (Inl e, s)
      | Inr video \<Rightarrow>
      (case playlist of
        None \<Rightarrow> (Inl (ApiError 400 ''playlist not found''), s)
      | Some pl \<Rightarrow>
      (case video of
        None \<Rightarrow> (Inl (ApiError 400 ''video not found''), s)
      | Some vd \<Rightarrow>
          if js_and (p_owner pl) (v_owner vd) \<noteq> req_user
          then (Inl (ApiError 400 ''only owner can remove video to thier playlist''), s)
          else
            (case findByIdAndUpdate p_id (p_id pl)
                    (\<lambda>p. p\<lparr>p_videos := pull (v_id vd) (p_videos p), p_updatedAt := now\<rparr>)
                    (playlists s) of
               (updatedPlaylist, ps) \<Rightarrow> (Inr updatedPlaylist, s\<lparr>playlists := ps\<rparr>))))))"

subsection \<open>deletePlaylist, updatePlaylist\<close>

definition deletePlaylist :: "oid option \<Rightarrow> id_param \<Rightarrow> store \<Rightarrow> (error + unit) \<times> store" where
  "deletePlaylist req_user playlistId s =
     (if \<not> isValidObjectId playlistId
      then (Inl (ApiError 400 ''playlistId or videoId is invalid''), s)
      else case findById p_id playlistId (playlists s) of
        Inl e \<Rightarrow> (Inl e, s)
      | Inr None \<Rightarrow> (Inl (ApiError 400 ''playlistId not found''), s)
      | Inr (Some playlist) \<Rightarrow>
          if p_owner playlist \<noteq> req_user
          then (Inl (ApiError 400 ''only owner can delete video to thier playlist''), s)
          else (Inr (), s\<lparr>playlists := deleteOne (\<lambda>p. p_id p = p_id playlist) (playlists s)\<rparr>))"

definition updatePlaylist ::
  "nat \<Rightarrow> oid option \<Rightarrow> id_param \<Rightarrow> string option \<Rightarrow> string option \<Rightarrow> store \<Rightarrow>
   (error + playlist option) \<times> store" where
  "updatePlaylist now req_user playlistId body_name body_description s =
     (if \<not> isValidObjectId playlistId
      then (Inl (ApiError 400 ''playlistId or videoId is invalid''), s)
      else if falsy body_name \<or> falsy body_description
      then (Inl (ApiError 400 ''name and description are requiered''), s)
      else case findById p_id playlistId (playlists s) of
        Inl e \<Rightarrow> (Inl e, s)
      | Inr None \<Rightarrow> (Inl (ApiError 400 ''playlist not found''), s)
      | Inr (Some playlist) \<Rightarrow>
          (case req_user of
             None \<Rightarrow> (Inl TypeError, s)
           | Some u \<Rightarrow>
               if p_owner playlist \<noteq> Some u
               then (Inl (ApiError 400 ''only owner can update to thier playlist''), s)
               else
                 (case findByIdAndUpdate p_id (p_id playlist)
                         (\<lambda>p. p\<lparr>p_name := (case body_name of None \<Rightarrow> [] | Some str \<Rightarrow> str),
                                p_description :=
                                  (case body_description of None \<Rightarrow> [] | Some str \<Rightarrow> str),
                                p_updatedAt := now\<rparr>) (playlists s) of
                    (updatedPlaylist, ps) \<Rightarrow> (Inr updatedPlaylist, s\<lparr>playlists := ps\<rparr>))))"

section \<open>A small store for the concrete runs\<close>

text \<open>
  Two users; two videos of the first user, one published and one not; a comment of the
  first user on the published video, liked by both users; a playlist of the first user
  holding both videos, a playlist of the second user holding only the unpublished video,
  and an empty playlist of the first user.
\<close>

definition user_ann :: user where
  "user_ann = \<lparr>u_id = 1, username = ''ann'', fullName = ''Ann Lee'', avatar_url = ''ann.png''\<rparr>"

definition user_bob :: user where
  "user_bob = \<lparr>u_id = 2, username = ''bob'', fullName = ''Bob Ray'', avatar_url = ''bob.png''\<rparr>"

definition video_published :: video where
  "video_published =
     \<lparr>v_id = 11, v_owner = Some 1, isPublished = True, views = 5, title = ''intro'',
      v_description = ''first'', duration = 60, videoFile_url = ''intro.mp4'',
      thumbnail_url = ''intro.jpg'', v_createdAt = 100\<rparr>"

definition video_unpublished :: video where
  "video_unpublished =
     \<lparr>v_id = 12, v_owner = Some 1, isPublished = False, views = 7, title = ''draft'',
      v_description = ''second'', duration = 90, videoFile_url = ''draft.mp4'',
      thumbnail_url = ''draft.jpg'', v_createdAt = 110\<rparr>"

definition comment_ann :: comment where
  "comment_ann =
     \<lparr>c_id = 31, content = ''nice'', c_owner = Some 1, c_video = 11,
      c_createdAt = 300, c_updatedAt = 300\<rparr>"

definition like_ann :: like where
  "like_ann = \<lparr>l_comment = Some 31, l_video = None, likedBy = 1\<rparr>"

definition like_bob :: like where
  "like_bob = \<lparr>l_comment = Some 31, l_video = None, likedBy = 2\<rparr>"

definition playlist_mixed :: playlist where
  "playlist_mixed =
     \<lparr>p_id = 21, p_name = ''mixed'', p_description = ''both videos'', p_owner = Some 1,
      p_videos = [11, 12], p_createdAt = 200, p_updatedAt = 200\<rparr>"

definition playlist_drafts :: playlist where
  "playlist_drafts =
     \<lparr>p_id = 22, p_name = ''drafts'', p_description = ''unpublished only'', p_owner = Some 2,
      p_videos = [12], p_createdAt = 210, p_updatedAt = 210\<rparr>"

definition playlist_empty :: playlist where
  "playlist_empty =
     \<lparr>p_id = 23, p_name = ''later'', p_description = ''nothing yet'', p_owner = Some 1,
      p_videos = [], p_createdAt = 220, p_updatedAt = 220\<rparr>"

definition sample_store :: store where
  "sample_store =
     \<lparr>users = [user_ann, user_bob],
      videos = [video_published, video_unpublished],
      comments = [comment_ann],
      likes = [like_ann, like_bob],
      playlists = [playlist_mixed, playlist_drafts, playlist_empty]\<rparr>"

lemmas sample_defs =
  sample_store_def user_ann_def user_bob_def video_published_def video_unpublished_def
  comment_ann_def like_ann_def like_bob_def playlist_mixed_def playlist_drafts_def
  playlist_empty_def

lemmas call_defs =
  findById_def ObjectId_def isValidObjectId_def findByIdAndUpdate_def create_def falsy_def
  first_def oid_value_def user_field_def lookup_def lookup_ids_def project_owner_def
  js_and_def addToSet_def pull_def

section \<open>Facts about the mongoose calls\<close>

lemma find_key: "find (\<lambda>d. key d = i) xs = Some d \<Longrightarrow> key d = i"
  by (induction xs) (auto split: if_splits)

lemma findById_Some:
  "findById key p xs = Inr (Some d) \<Longrightarrow>
   p = WellFormed (key d) \<and> find (\<lambda>x. key x = key d) xs = Some d"
  by (cases p) (auto simp: findById_def dest: find_key)

lemma find_updateOne:
  "(\<And>d. key (f d) = key d) \<Longrightarrow>
   find (\<lambda>d. key d = i) (updateOne (\<lambda>d. key d = i) f xs) =
   map_option f (find (\<lambda>d. key d = i) xs)"
  by (induction xs) auto

lemma updateOne_twice:
  "(\<And>x. P (f x) = P x) \<Longrightarrow> updateOne P g (updateOne P f xs) = updateOne P (g \<circ> f) xs"
  by (induction xs) auto

lemma updateOne_map_cong:
  "(\<And>x. h (f x) = h (g x)) \<Longrightarrow> map h (updateOne P f xs) = map h (updateOne P g xs)"
  by (induction xs) auto

lemma count_list_addToSet: "count_list vs v \<le> 1 \<Longrightarrow> count_list (addToSet v vs) v = 1"
  using count_list_0_iff[of vs v] by (auto simp: addToSet_def)

lemma distinct_count_le1: "distinct vs \<Longrightarrow> count_list vs v \<le> 1"
  by (induction vs) auto

lemma addToSet_idem: "addToSet v (addToSet v vs) = addToSet v vs"
  by (simp add: addToSet_def)

section \<open>A failed mutation writes nothing\<close>

lemma addComment_fail:
  "fst (addComment new_id now req_user videoId body_content s) = Inl e \<Longrightarrow>
   snd (addComment new_id now req_user videoId body_content s) = s"
  by (auto simp: addComment_def create_def split: if_splits sum.splits option.splits)

lemma updateComment_fail:
  "fst (updateComment now req_user commentId body_content s) = Inl e \<Longrightarrow>
   snd (updateComment now req_user commentId body_content s) = s"
  by (auto simp: updateComment_def findByIdAndUpdate_def
           split: if_splits sum.splits option.splits dest!: findById_Some)

lemma deleteComment_fail:
  "fst (deleteComment req_user commentId s) = Inl e \<Longrightarrow>
   snd (deleteComment req_user commentId s) = s"
  by (auto simp: deleteComment_def Let_def split: if_splits sum.splits option.splits)

lemma createPlaylist_fail:
  "fst (createPlaylist new_id now req_user body_name body_description s) = Inl e \<Longrightarrow>
   snd (createPlaylist new_id now req_user body_name body_description s) = s"
  by (auto simp: createPlaylist_def create_def split: if_splits)

lemma updatePlaylist_fail:
  "fst (updatePlaylist now req_user playlistId body_name body_description s) = Inl e \<Longrightarrow>
   snd (updatePlaylist now req_user playlistId body_name body_description s) = s"
  by (auto simp: updatePlaylist_def findByIdAndUpdate_def
           split: if_splits sum.splits option.splits)

lemma deletePlaylist_fail:
  "fst (deletePlaylist req_user playlistId s) = Inl e \<Longrightarrow>
   snd (deletePlaylist req_user playlistId s) = s"
  by (auto simp: deletePlaylist_def split: if_splits sum.splits option.splits)

lemma addVideoToPlaylist_fail:
  "fst (addVideoToPlaylist now req_user playlistId videoId s) = Inl e \<Longrightarrow>
   snd (addVideoToPlaylist now req_user playlistId videoId s) = s"
  by (auto simp: addVideoToPlaylist_def findByIdAndUpdate_def
           split: if_splits sum.splits option.splits dest!: findById_Some)

lemma removeVideoFromPlaylist_fail:
  "fst (removeVideoFromPlaylist now req_user playlistId videoId s) = Inl e \<Longrightarrow>
   snd (removeVideoFromPlaylist now req_user playlistId videoId s) = s"
  by (auto simp: removeVideoFromPlaylist_def findByIdAndUpdate_def
           split: if_splits sum.splits option.splits)

text \<open>
  C10. Each of the eight mutations, when it ends in an error (every ValidationError,
  NotFound and PermissionDenied failure is one: all of them are thrown before the first
  write), leaves the store exactly as it found it.
\<close>

theorem failed_mutation_leaves_store:
  "(fst (addComment new_id now req_user videoId body_content s) = Inl e1 \<longrightarrow>
      snd (addComment new_id now req_user videoId body_content s) = s) \<and>
   (fst (updateComment now req_user commentId body_content s) = Inl e2 \<longrightarrow>
      snd (updateComment now req_user commentId body_content s) = s) \<and>
   (fst (deleteComment req_user commentId s) = Inl e3 \<longrightarrow>
      snd (deleteComment req_user commentId s) = s) \<and>
   (fst (createPlaylist new_id now req_user body_name body_description s) = Inl e4 \<longrightarrow>
      snd (createPlaylist new_id now req_user body_name body_description s) = s) \<and>
   (fst (updatePlaylist now req_user playlistId body_name body_description s) = Inl e5 \<longrightarrow>
      snd (updatePlaylist now req_user playlistId body_name body_description s) = s) \<and>
   (fst (deletePlaylist req_user playlistId s) = Inl e6 \<longrightarrow>
      snd (deletePlaylist req_user playlistId s) = s) \<and>
   (fst (addVideoToPlaylist now req_user playlistId videoId s) = Inl e7 \<longrightarrow>
      snd (addVideoToPlaylist now req_user playlistId videoId s) = s) \<and>
   (fst (removeVideoFromPlaylist now req_user playlistId videoId s) = Inl e8 \<longrightarrow>
      snd (removeVideoFromPlaylist now req_user playlistId videoId s) = s)"
  by (intro conjI impI;
      erule addComment_fail updateComment_fail deleteComment_fail createPlaylist_fail
        updatePlaylist_fail deletePlaylist_fail addVideoToPlaylist_fail
        removeVideoFromPlaylist_fail)

text \<open>
  The theorem at work on the sample store: one failing call of each mutation (a missing
  video, a comment and a playlist of another user, a missing name), each returning its
  error and the store untouched.
\<close>

theorem failed_mutation_leaves_store_witness:
  "fst (addComment 41 900 (Some 2) (WellFormed 99) (Some ''hello'') sample_store) =
     Inl (ApiError 400 ''video not found'') \<and>
   snd (addComment 41 900 (Some 2) (WellFormed 99) (Some ''hello'') sample_store) = sample_store \<and>
   fst (updateComment 900 (Some 2) (WellFormed 31) (Some ''hello'') sample_store) =
     Inl (ApiError 400 ''only comment owner can edit their comment'') \<and>
   snd (updateComment 900 (Some 2) (WellFormed 31) (Some ''hello'') sample_store) = sample_store \<and>
   fst (deleteComment (Some 2) (WellFormed 31) sample_store) =
     Inl (ApiError 400 ''only comment owner can delete their comment'') \<and>
   snd (deleteComment (Some 2) (WellFormed 31) sample_store) = sample_store \<and>
   fst (createPlaylist 41 900 (Some 2) None (Some ''about'') sample_store) =
     Inl (ApiError 400 ''name and description both are required'') \<and>
   snd (createPlaylist 41 900 (Some 2) None (Some ''about'') sample_store) = sample_store \<and>
   fst (updatePlaylist 900 (Some 2) (WellFormed 21) None (Some ''about'') sample_store) =
     Inl (ApiError 400 ''name and description are requiered'') \<and>
   snd (updatePlaylist 900 (Some 2) (WellFormed 21) None (Some ''about'') sample_store) = sample_store \<and>
   fst (deletePlaylist (Some 2) (WellFormed 21) sample_store) =
     Inl (ApiError 400 ''only owner can delete video to thier playlist'') \<and>
   snd (deletePlaylist (Some 2) (WellFormed 21) sample_store) = sample_store \<and>
   fst (addVideoToPlaylist 900 (Some 2) (WellFormed 21) (WellFormed 99) sample_store) =
     Inl (ApiError 400 ''video not found'') \<and>
   snd (addVideoToPlaylist 900 (Some 2) (WellFormed 21) (WellFormed 99) sample_store) = sample_store \<and>
   fst (removeVideoFromPlaylist 900 (Some 2) (WellFormed 21) (WellFormed 99) sample_store) =
     Inl (ApiError 400 ''video not found'') \<and>
   snd (removeVideoFromPlaylist 900 (Some 2) (WellFormed 21) (WellFormed 99) sample_store) = sample_store"
proof -
  have h1: "fst (addComment 41 900 (Some 2) (WellFormed 99) (Some ''hello'') sample_store) =
     Inl (ApiError 400 ''video not found'')"
    by (simp add: addComment_def call_defs sample_defs)
  have h2: "fst (updateComment 900 (Some 2) (WellFormed 31) (Some ''hello'') sample_store) =
     Inl (ApiError 400 ''only comment owner can edit their comment'')"
    by (simp add: updateComment_def call_defs sample_defs)
  have h3: "fst (deleteComment (Some 2) (WellFormed 31) sample_store) =
     Inl (ApiError 400 ''only comment owner can delete their comment'')"
    by (simp add: deleteComment_def call_defs sample_defs)
  have h4: "fst (createPlaylist 41 900 (Some 2) None (Some ''about'') sample_store) =
     Inl (ApiError 400 ''name and description both are required'')"
    by (simp add: createPlaylist_def call_defs)
  have h5: "fst (updatePlaylist 900 (Some 2) (WellFormed 21) None (Some ''about'') sample_store) =
     Inl (ApiError 400 ''name and description are requiered'')"
    by (simp add: updatePlaylist_def call_defs)
  have h6: "fst (deletePlaylist (Some 2) (WellFormed 21) sample_store) =
     Inl (ApiError 400 ''only owner can delete video to thier playlist'')"
    by (simp add: deletePlaylist_def call_defs sample_defs)
  have h7: "fst (addVideoToPlaylist 900 (Some 2) (WellFormed 21) (WellFormed 99) sample_store) =
     Inl (ApiError 400 ''video not found'')"
    by (simp add: addVideoToPlaylist_def call_defs sample_defs)
  have h8: "fst (removeVideoFromPlaylist 900 (Some 2) (WellFormed 21) (WellFormed 99) sample_store) =
     Inl (ApiError 400 ''video not found'')"
    by (simp add: removeVideoFromPlaylist_def call_defs sample_defs)
  from failed_mutation_leaves_store [where new_id=41 and now=900 and req_user="Some 2" and
      videoId="WellFormed 99" and body_content="Some ''hello''" and s=sample_store and
      commentId="WellFormed 31" and body_name=None and body_description="Some ''about''" and
      playlistId="WellFormed 21"]
    h1 h2 h3 h4 h5 h6 h7 h8
  show ?thesis by blast
qed

section \<open>Adding a video twice\<close>

lemma addVideo_success:
  assumes "addVideoToPlaylist now req_user playlistId videoId s = (Inr p1, s1)"
  shows "\<exists>pl vd. playlistId = WellFormed (p_id pl) \<and> videoId = WellFormed (v_id vd) \<and>
           find (\<lambda>p. p_id p = p_id pl) (playlists s) = Some pl \<and>
           find (\<lambda>v. v_id v = v_id vd) (videos s) = Some vd \<and>
           js_and (p_owner pl) (v_owner vd) = req_user \<and>
           p1 = pl\<lparr>p_videos := addToSet (v_id vd) (p_videos pl), p_updatedAt := now\<rparr> \<and>
           s1 = s\<lparr>playlists := updateOne (\<lambda>p. p_id p = p_id pl)
                   (\<lambda>p. p\<lparr>p_videos := addToSet (v_id vd) (p_videos p), p_updatedAt := now\<rparr>) (playlists s)\<rparr>"
  using assms
  apply (auto simp: addVideoToPlaylist_def findByIdAndUpdate_def split: if_splits sum.splits option.splits dest!: findById_Some)
  subgoal for a b by (rule exI[of _ a], simp, rule exI[of _ b], simp)
  subgoal for a b by (rule exI[of _ a], simp, rule exI[of _ b], simp)
  done

lemma addVideo_run:
  assumes "find (\<lambda>p. p_id p = i) (playlists s) = Some pl"
      and "find (\<lambda>v. v_id v = j) (videos s) = Some vd"
      and "js_and (p_owner pl) (v_owner vd) = req_user"
  shows "addVideoToPlaylist now req_user (WellFormed i) (WellFormed j) s =
           (Inr (pl\<lparr>p_videos := addToSet j (p_videos pl), p_updatedAt := now\<rparr>),
            s\<lparr>playlists := updateOne (\<lambda>p. p_id p = i)
                   (\<lambda>p. p\<lparr>p_videos := addToSet j (p_videos p), p_updatedAt := now\<rparr>) (playlists s)\<rparr>)"
  using assms find_key[OF assms(1)] find_key[OF assms(2)]
  by (simp add: addVideoToPlaylist_def findByIdAndUpdate_def findById_def isValidObjectId_def)

lemma addVideo_again:
  assumes first: "addVideoToPlaylist now req_user playlistId videoId s = (Inr p1, s1)"
  shows "\<exists>p2 s2 vid. addVideoToPlaylist now' req_user playlistId videoId s1 = (Inr p2, s2) \<and>
           videoId = WellFormed vid \<and> vid \<in> set (p_videos p2) \<and>
           p_videos p2 = p_videos p1 \<and>
           map p_videos (playlists s2) = map p_videos (playlists s1)"
proof -
  from addVideo_success[OF first] obtain pl vd where
    pid: "playlistId = WellFormed (p_id pl)" and vid: "videoId = WellFormed (v_id vd)" and
    fp: "find (\<lambda>p. p_id p = p_id pl) (playlists s) = Some pl" and
    fv: "find (\<lambda>v. v_id v = v_id vd) (videos s) = Some vd" and
    auth: "js_and (p_owner pl) (v_owner vd) = req_user" and
    p1: "p1 = pl\<lparr>p_videos := addToSet (v_id vd) (p_videos pl), p_updatedAt := now\<rparr>" and
    s1: "s1 = s\<lparr>playlists := updateOne (\<lambda>p. p_id p = p_id pl)
                   (\<lambda>p. p\<lparr>p_videos := addToSet (v_id vd) (p_videos p), p_updatedAt := now\<rparr>)
                   (playlists s)\<rparr>"
    by blast
  let ?f = "\<lambda>t p. p\<lparr>p_videos := addToSet (v_id vd) (p_videos p), p_updatedAt := t\<rparr>"
  have fp1: "find (\<lambda>p. p_id p = p_id pl) (playlists s1) = Some p1"
    unfolding s1 p1 using find_updateOne[of p_id "?f now" "p_id pl" "playlists s"] fp by simp
  have fv1: "find (\<lambda>v. v_id v = v_id vd) (videos s1) = Some vd"
    using fv by (simp add: s1)
  have auth1: "js_and (p_owner p1) (v_owner vd) = req_user"
    using auth by (simp add: p1)
  note run = addVideo_run[OF fp1 fv1 auth1, of now']
  have mem: "v_id vd \<in> set (p_videos p1)"
    by (simp add: p1 addToSet_def)
  have same: "addToSet (v_id vd) (p_videos p1) = p_videos p1"
    by (simp add: p1 addToSet_idem)
  have upd: "updateOne (\<lambda>p. p_id p = p_id pl) (?f now') (playlists s1) =
             updateOne (\<lambda>p. p_id p = p_id pl) (?f now' \<circ> ?f now) (playlists s)"
    unfolding s1 by (simp add: updateOne_twice)
  have maps: "map p_videos (updateOne (\<lambda>p. p_id p = p_id pl) (?f now' \<circ> ?f now) (playlists s)) =
              map p_videos (updateOne (\<lambda>p. p_id p = p_id pl) (?f now) (playlists s))"
    by (rule updateOne_map_cong) (simp add: addToSet_idem)
  show ?thesis
    unfolding pid vid run
    using mem same upd maps by (simp add: s1)
qed

text \<open>The video lists of the playlists stay free of duplicates under every playlist mutation.\<close>

lemma list_all_updateOne:
  "list_all Q xs \<Longrightarrow> (\<And>x. Q x \<Longrightarrow> Q (f x)) \<Longrightarrow> list_all Q (updateOne P f xs)"
  by (induction xs) auto

lemma list_all_deleteOne: "list_all Q xs \<Longrightarrow> list_all Q (deleteOne P xs)"
  by (induction xs) auto

lemma distinct_addToSet: "distinct vs \<Longrightarrow> distinct (addToSet v vs)"
  by (simp add: addToSet_def)

lemma distinct_pull: "distinct vs \<Longrightarrow> distinct (pull v vs)"
  by (simp add: pull_def)

lemma no_duplicate_videos_kept:
  assumes "list_all (\<lambda>p. distinct (p_videos p)) (playlists s)"
  shows "list_all (\<lambda>p. distinct (p_videos p))
           (playlists (snd (createPlaylist new_id now req_user body_name body_description s)))"
    and "list_all (\<lambda>p. distinct (p_videos p))
           (playlists (snd (addVideoToPlaylist now req_user playlistId videoId s)))"
    and "list_all (\<lambda>p. distinct (p_videos p))
           (playlists (snd (removeVideoFromPlaylist now req_user playlistId videoId s)))"
    and "list_all (\<lambda>p. distinct (p_videos p))
           (playlists (snd (updatePlaylist now req_user playlistId body_name body_description s)))"
    and "list_all (\<lambda>p. distinct (p_videos p))
           (playlists (snd (deletePlaylist req_user playlistId s)))"
proof -
  show "list_all (\<lambda>p. distinct (p_videos p))
           (playlists (snd (createPlaylist new_id now req_user body_name body_description s)))"
    using assms by (simp add: createPlaylist_def create_def)
  show "list_all (\<lambda>p. distinct (p_videos p))
           (playlists (snd (addVideoToPlaylist now req_user playlistId videoId s)))"
    using assms
    by (auto simp: addVideoToPlaylist_def findByIdAndUpdate_def distinct_addToSet
             split: sum.splits option.splits intro!: list_all_updateOne)
  show "list_all (\<lambda>p. distinct (p_videos p))
           (playlists (snd (removeVideoFromPlaylist now req_user playlistId videoId s)))"
    using assms
    by (auto simp: removeVideoFromPlaylist_def findByIdAndUpdate_def distinct_pull
             split: sum.splits option.splits intro!: list_all_updateOne)
  show "list_all (\<lambda>p. distinct (p_videos p))
           (playlists (snd (updatePlaylist now req_user playlistId body_name body_description s)))"
    using assms
    by (auto simp: updatePlaylist_def findByIdAndUpdate_def
             split: sum.splits option.splits intro!: list_all_updateOne)
  show "list_all (\<lambda>p. distinct (p_videos p))
           (playlists (snd (deletePlaylist req_user playlistId s)))"
    using assms
    by (auto simp: deletePlaylist_def split: sum.splits option.splits intro!: list_all_deleteOne)
qed

text \<open>
  C8. When \<open>addVideoToPlaylist\<close> has succeeded, the same call on the store it left (at
  any later time) succeeds again; the playlist it returns holds the video exactly once
  and has the video list of the first result, and no playlist's video list in the store
  has changed. The video lists of the starting store are taken to be free of duplicates:
  the invariant of the data model, which \<open>no_duplicate_videos_kept\<close> shows every
  playlist mutation keeps. (Without it the second call still succeeds and adds nothing:
  \<open>addVideo_again\<close>.)
\<close>

theorem addVideo_twice:
  assumes first: "addVideoToPlaylist now req_user playlistId videoId s = (Inr p1, s1)"
      and inv: "list_all (\<lambda>p. distinct (p_videos p)) (playlists s)"
  shows "\<exists>p2 s2 vid. addVideoToPlaylist now' req_user playlistId videoId s1 = (Inr p2, s2) \<and>
           videoId = WellFormed vid \<and> count_list (p_videos p2) vid = 1 \<and>
           p_videos p2 = p_videos p1 \<and>
           map p_videos (playlists s2) = map p_videos (playlists s1)"
proof -
  from addVideo_success[OF first] obtain pl vd where
    "playlistId = WellFormed (p_id pl)" and vid: "videoId = WellFormed (v_id vd)" and
    fp: "find (\<lambda>p. p_id p = p_id pl) (playlists s) = Some pl" and
    "find (\<lambda>v. v_id v = v_id vd) (videos s) = Some vd" and
    "js_and (p_owner pl) (v_owner vd) = req_user" and
    p1: "p1 = pl\<lparr>p_videos := addToSet (v_id vd) (p_videos pl), p_updatedAt := now\<rparr>" and
    "s1 = s\<lparr>playlists := updateOne (\<lambda>p. p_id p = p_id pl)
                   (\<lambda>p. p\<lparr>p_videos := addToSet (v_id vd) (p_videos p), p_updatedAt := now\<rparr>)
                   (playlists s)\<rparr>"
    by blast
  have "pl \<in> set (playlists s)"
    using fp by (auto simp: find_Some_iff)
  then have "distinct (p_videos pl)"
    using inv by (auto simp: list_all_iff)
  then have once: "count_list (p_videos p1) (v_id vd) = 1"
    using count_list_addToSet[OF distinct_count_le1, of "p_videos pl" "v_id vd"]
    by (simp add: p1)
  from addVideo_again[OF first, of now'] obtain p2 s2 vid' where
    again: "addVideoToPlaylist now' req_user playlistId videoId s1 = (Inr p2, s2)"
      "videoId = WellFormed vid'" "p_videos p2 = p_videos p1"
      "map p_videos (playlists s2) = map p_videos (playlists s1)"
    by blast
  with vid once show ?thesis by auto
qed

text \<open>
  On the sample store: the first user adds the published video to the empty playlist,
  twice.
\<close>

theorem addVideo_twice_witness:
  "addVideoToPlaylist 900 (Some 1) (WellFormed 23) (WellFormed 11) sample_store =
     (Inr (playlist_empty\<lparr>p_videos := [11], p_updatedAt := 900\<rparr>),
      sample_store\<lparr>playlists :=
        [playlist_mixed, playlist_drafts, playlist_empty\<lparr>p_videos := [11], p_updatedAt := 900\<rparr>]\<rparr>) \<and>
   list_all (\<lambda>p. distinct (p_videos p)) (playlists sample_store) \<and>
   (\<exists>p2 s2 vid.
      addVideoToPlaylist 950 (Some 1) (WellFormed 23) (WellFormed 11)
        (sample_store\<lparr>playlists :=
           [playlist_mixed, playlist_drafts, playlist_empty\<lparr>p_videos := [11], p_updatedAt := 900\<rparr>]\<rparr>) =
        (Inr p2, s2) \<and>
      WellFormed 11 = WellFormed vid \<and> count_list (p_videos p2) vid = 1 \<and>
      p_videos p2 = [11] \<and>
      map p_videos (playlists s2) = [[11, 12], [12], [11]])"
proof -
  have h1: "addVideoToPlaylist 900 (Some 1) (WellFormed 23) (WellFormed 11) sample_store =
     (Inr (playlist_empty\<lparr>p_videos := [11], p_updatedAt := 900\<rparr>),
      sample_store\<lparr>playlists :=
        [playlist_mixed, playlist_drafts, playlist_empty\<lparr>p_videos := [11], p_updatedAt := 900\<rparr>]\<rparr>)"
    by (simp add: addVideoToPlaylist_def call_defs sample_defs)
  have h2: "list_all (\<lambda>p. distinct (p_videos p)) (playlists sample_store)"
    by (simp add: sample_defs)
  from addVideo_twice [OF h1 h2, of 950] h1 h2 show ?thesis
    by (simp add: sample_defs)
qed

section \<open>Who may add or remove a video\<close>

text \<open>
  C5. For a playlist and a video that both exist and both have an owner,
  \<open>addVideoToPlaylist\<close> and \<open>removeVideoFromPlaylist\<close> throw their "only owner"
  error exactly when the video's owner is not the acting user, and succeed exactly when it
  is. The playlist's owner \<open>po\<close> stands on neither right-hand side: it has no part in
  the outcome.
\<close>

theorem video_owner_decides:
  assumes fp: "find (\<lambda>p. p_id p = pid) (playlists s) = Some pl"
      and fv: "find (\<lambda>v. v_id v = vid) (videos s) = Some vd"
      and po: "p_owner pl = Some po"
      and vo: "v_owner vd = Some vo"
  shows "(fst (addVideoToPlaylist now req_user (WellFormed pid) (WellFormed vid) s) =
            Inl (ApiError 400 ''only owner can add video to thier playlist'')) = (Some vo \<noteq> req_user) \<and>
         (fst (removeVideoFromPlaylist now req_user (WellFormed pid) (WellFormed vid) s) =
            Inl (ApiError 400 ''only owner can remove video to thier playlist'')) = (Some vo \<noteq> req_user) \<and>
         (\<exists>p. fst (addVideoToPlaylist now req_user (WellFormed pid) (WellFormed vid) s) = Inr p) = (Some vo = req_user) \<and>
         (\<exists>p. fst (removeVideoFromPlaylist now req_user (WellFormed pid) (WellFormed vid) s) = Inr p) = (Some vo = req_user)"
proof -
  have k: "p_id pl = pid" "v_id vd = vid"
    using find_key[OF fp] find_key[OF fv] by simp_all
  have a: "js_and (p_owner pl) (v_owner vd) = Some vo"
    by (simp add: js_and_def po vo)
  show ?thesis
    using fp fv a k
    by (auto simp: addVideoToPlaylist_def removeVideoFromPlaylist_def findById_def
          isValidObjectId_def findByIdAndUpdate_def)
qed

text \<open>
  On the sample store, with the second user's playlist and the first user's video: the
  playlist's owner is refused, the video's owner is let through.
\<close>

theorem video_owner_decides_witness:
  "find (\<lambda>p. p_id p = 22) (playlists sample_store) = Some playlist_drafts \<and>
   find (\<lambda>v. v_id v = 11) (videos sample_store) = Some video_published \<and>
   p_owner playlist_drafts = Some 2 \<and> v_owner video_published = Some 1 \<and>
   fst (addVideoToPlaylist 900 (Some 2) (WellFormed 22) (WellFormed 11) sample_store) =
     Inl (ApiError 400 ''only owner can add video to thier playlist'') \<and>
   fst (removeVideoFromPlaylist 900 (Some 2) (WellFormed 22) (WellFormed 11) sample_store) =
     Inl (ApiError 400 ''only owner can remove video to thier playlist'') \<and>
   (\<exists>p. fst (addVideoToPlaylist 900 (Some 1) (WellFormed 22) (WellFormed 11) sample_store) = Inr p) \<and>
   (\<exists>p. fst (removeVideoFromPlaylist 900 (Some 1) (WellFormed 22) (WellFormed 11) sample_store) = Inr p)"
proof -
  have fp: "find (\<lambda>p. p_id p = 22) (playlists sample_store) = Some playlist_drafts"
    by (simp add: sample_defs)
  have fv: "find (\<lambda>v. v_id v = 11) (videos sample_store) = Some video_published"
    by (simp add: sample_defs)
  have po: "p_owner playlist_drafts = Some 2"
    by (simp add: sample_defs)
  have vo: "v_owner video_published = Some 1"
    by (simp add: sample_defs)
  from video_owner_decides [OF fp fv po vo, of 900 "Some 2"]
    video_owner_decides [OF fp fv po vo, of 900 "Some 1"] fp fv po vo
  show ?thesis by simp
qed

section \<open>The detail view of a playlist\<close>

lemma filter_key_distinct:
  "distinct (map key xs) \<Longrightarrow> find (\<lambda>x. key x = i) xs = Some d \<Longrightarrow>
   filter (\<lambda>x. key x = i) xs = [d]"
proof (induction xs)
  case Nil
  then show ?case by simp
next
  case (Cons x xs)
  show ?case
  proof (cases "key x = i")
    case True
    then have "d = x" using Cons.prems(2) by simp
    moreover have "key x \<notin> key ` set xs"
      using Cons.prems(1) by simp
    then have "key y \<noteq> i" if "y \<in> set xs" for y
      using True that by (metis imageI)
    then have "filter (\<lambda>y. key y = i) xs = []"
      by (simp add: filter_empty_conv)
    ultimately show ?thesis using True by simp
  next
    case False
    then show ?thesis using Cons by simp
  qed
qed

text \<open>
  C9. A playlist that exists, none of whose listed videos is published (an empty list
  included): \<open>getPlaylistById\<close> succeeds and its payload is absent. Ids are unique in
  the playlists collection, as \<open>_id\<close> is in every collection.
\<close>

theorem no_published_video_no_detail:
  assumes ids: "distinct (map p_id (playlists s))"
      and fp: "find (\<lambda>p. p_id p = pid) (playlists s) = Some pl"
      and none: "\<forall>v \<in> set (videos s). v_id v \<in> set (p_videos pl) \<longrightarrow> \<not> isPublished v"
  shows "getPlaylistById (WellFormed pid) s = Inr None"
proof -
  have one: "filter (\<lambda>p. p_id p = pid) (playlists s) = [pl]"
    using filter_key_distinct[OF ids fp] .
  have off: "\<not> match_videos_isPublished (lookup_ids (p_videos pl) v_id (videos s))"
    using none by (auto simp: match_videos_isPublished_def lookup_ids_def list_ex_iff)
  have "playlistAggregate pid s = []"
    by (simp add: playlistAggregate_def one off)
  then show ?thesis
    using fp by (simp add: getPlaylistById_def isValidObjectId_def findById_def ObjectId_def first_def)
qed

text \<open>
  On the sample store: the playlist holding only the unpublished video, and the empty
  playlist.
\<close>

theorem no_published_video_no_detail_witness:
  "distinct (map p_id (playlists sample_store)) \<and>
   find (\<lambda>p. p_id p = 22) (playlists sample_store) = Some playlist_drafts \<and>
   filter (\<lambda>v. v_id v \<in> set (p_videos playlist_drafts) \<and> isPublished v) (videos sample_store) = [] \<and>
   getPlaylistById (WellFormed 22) sample_store = Inr None \<and>
   find (\<lambda>p. p_id p = 23) (playlists sample_store) = Some playlist_empty \<and>
   p_videos playlist_empty = [] \<and>
   getPlaylistById (WellFormed 23) sample_store = Inr None"
proof -
  have ids: "distinct (map p_id (playlists sample_store))"
    by (simp add: sample_defs)
  have fp: "find (\<lambda>p. p_id p = 22) (playlists sample_store) = Some playlist_drafts"
    by (simp add: sample_defs)
  have none: "\<forall>v \<in> set (videos sample_store).
                v_id v \<in> set (p_videos playlist_drafts) \<longrightarrow> \<not> isPublished v"
    by (simp add: sample_defs)
  have fp': "find (\<lambda>p. p_id p = 23) (playlists sample_store) = Some playlist_empty"
    by (simp add: sample_defs)
  have none': "\<forall>v \<in> set (videos sample_store).
                v_id v \<in> set (p_videos playlist_empty) \<longrightarrow> \<not> isPublished v"
    by (simp add: sample_defs)
  from no_published_video_no_detail [OF ids fp none]
    no_published_video_no_detail [OF ids fp' none'] ids fp fp'
  show ?thesis by (simp add: sample_defs)
qed

text \<open>
  What a detail view holds when there is one: every joined video of the playlist,
  published or not, and the count and the sum of views over all of them.
\<close>

lemma detail_is_of_all_joined_videos:
  assumes "getPlaylistById playlistId s = Inr (Some d)"
  shows "\<exists>pl \<in> set (playlists s).
           playlistId = WellFormed (p_id pl) \<and>
           pd_videos d = map project_video (lookup_ids (p_videos pl) v_id (videos s)) \<and>
           pd_totalVideos d = length (lookup_ids (p_videos pl) v_id (videos s)) \<and>
           pd_totalViews d = sum_list (map views (lookup_ids (p_videos pl) v_id (videos s)))"
proof -
  from assms obtain i where i: "playlistId = WellFormed i"
    and f: "first (playlistAggregate i s) = Some d"
    by (cases playlistId)
       (auto simp: getPlaylistById_def isValidObjectId_def findById_def ObjectId_def
             split: option.splits)
  from f have "d \<in> set (playlistAggregate i s)"
    by (auto simp: first_def split: list.splits)
  then obtain pl where "pl \<in> set (playlists s)" "p_id pl = i"
    "d = playlist_stages s pl (lookup_ids (p_videos pl) v_id (videos s))"
    by (auto simp: playlistAggregate_def)
  with i show ?thesis
    by (auto simp: playlist_stages_def Let_def)
qed

text \<open>
  C1. The claim is that the detail view lists only the published videos and counts and
  sums over them. The pipeline does not do that: on the sample store, the playlist with
  one published video (5 views) and one unpublished video (7 views) comes back with both
  videos, \<open>totalVideos = 2\<close> and \<open>totalViews = 12\<close>.
\<close>

theorem detail_keeps_unpublished_video:
  "getPlaylistById (WellFormed 21) sample_store =
     Inr (Some \<lparr>pd_id = 21, pd_name = ''mixed'', pd_description = ''both videos'',
                pd_createdAt = 200, pd_updatedAt = 200,
                pd_totalVideos = 2, pd_totalViews = 12,
                pd_videos = [project_video video_published, project_video video_unpublished],
                pd_owner = Some (project_owner user_ann)\<rparr>) \<and>
   \<not> isPublished video_unpublished \<and> views video_published = 5"
  by (simp add: getPlaylistById_def playlistAggregate_def playlist_stages_def
        match_videos_isPublished_def project_video_def call_defs sample_defs)

section \<open>The comments of a video\<close>

lemma comment_stages_id: "cv_id (comment_stages req_user s c) = c_id c"
  by (simp add: comment_stages_def Let_def)

lemma comment_stages_likes:
  "cv_likesCount (comment_stages req_user s c) =
     length (filter (\<lambda>l. l_comment l = Some (c_id c)) (likes s))"
  by (simp add: comment_stages_def Let_def)

lemma comment_stages_isLiked:
  "cv_isLiked (comment_stages req_user s c) =
     (\<exists>u. req_user = Some u \<and> u \<in> likedBy ` {l \<in> set (likes s). l_comment l = Some (c_id c)})"
  by (cases req_user) (auto simp: comment_stages_def Let_def)

lemma set_commentAggregate:
  "set (commentAggregate req_user vid s) =
     comment_stages req_user s ` {c \<in> set (comments s). c_video c = vid}"
  by (auto simp: commentAggregate_def)

text \<open>
  A successful call returns what the paginator makes of the pipeline's result and the
  options.
\<close>

lemma getVideoComments_success:
  assumes "getVideoComments parseInt aggregatePaginate req_user videoId query_page query_limit s = Inr r"
  shows "\<exists>vid. videoId = WellFormed vid \<and>
           r = aggregatePaginate (commentAggregate req_user vid s)
                 (pagination_options parseInt query_page query_limit)"
  using assms
  by (cases videoId)
     (auto simp: getVideoComments_def findById_def ObjectId_def split: option.splits)

lemma commentAggregate_likes:
  assumes "v \<in> set (commentAggregate req_user vid s)"
  shows "cv_likesCount v = length (filter (\<lambda>l. l_comment l = Some (cv_id v)) (likes s)) \<and>
         cv_isLiked v =
           (\<exists>u. req_user = Some u \<and>
                u \<in> likedBy ` {l \<in> set (likes s). l_comment l = Some (cv_id v)})"
proof -
  from assms obtain c where "v = comment_stages req_user s c"
    by (auto simp: set_commentAggregate)
  then show ?thesis
    by (simp add: comment_stages_id comment_stages_likes comment_stages_isLiked)
qed

text \<open>
  C7. Let \<open>getVideoComments\<close> succeed, with a paginator whose page (\<open>docs_of\<close> its
  result) is taken from the list it is given. For every comment of the returned page:
  \<open>likesCount\<close> is the number of Like documents whose \<open>comment\<close> is this comment,
  \<open>isLiked\<close> holds exactly when there is a viewer and the viewer's id is the
  \<open>likedBy\<close> of one of them, and \<open>isLiked\<close> is false when there is no viewer.
\<close>

theorem likes_of_returned_comments:
  assumes ok: "getVideoComments parseInt aggregatePaginate req_user videoId query_page query_limit s = Inr r"
      and page_of: "\<And>docs opts. set (docs_of (aggregatePaginate docs opts)) \<subseteq> set docs"
      and v: "v \<in> set (docs_of r)"
  shows "cv_likesCount v = length (filter (\<lambda>l. l_comment l = Some (cv_id v)) (likes s)) \<and>
         cv_isLiked v =
           (\<exists>u. req_user = Some u \<and>
                u \<in> likedBy ` {l \<in> set (likes s). l_comment l = Some (cv_id v)}) \<and>
         (req_user = None \<longrightarrow> \<not> cv_isLiked v)"
proof -
  from getVideoComments_success[OF ok] obtain vid where
    r: "r = aggregatePaginate (commentAggregate req_user vid s)
              (pagination_options parseInt query_page query_limit)"
    by blast
  from v page_of have "v \<in> set (commentAggregate req_user vid s)"
    unfolding r by blast
  from commentAggregate_likes[OF this] show ?thesis by simp
qed

text \<open>
  On the sample store, with a paginator that returns the first ten comments: the comment
  has two likes, one of them the second user's; without a viewer \<open>isLiked\<close> is false.
\<close>

theorem likes_of_returned_comments_witness:
  "getVideoComments (\<lambda>a. a) (\<lambda>docs opts. take 10 docs) (Some 2) (WellFormed 11)
      (None :: string option) None sample_store =
     Inr [\<lparr>cv_id = 31, cv_content = ''nice'', cv_createdAt = 300, cv_likesCount = 2,
           cv_owner = None, cv_isLiked = True\<rparr>] \<and>
   getVideoComments (\<lambda>a. a) (\<lambda>docs opts. take 10 docs) None (WellFormed 11)
      (None :: string option) None sample_store =
     Inr [\<lparr>cv_id = 31, cv_content = ''nice'', cv_createdAt = 300, cv_likesCount = 2,
           cv_owner = None, cv_isLiked = False\<rparr>] \<and>
   length (filter (\<lambda>l. l_comment l = Some 31) (likes sample_store)) = 2 \<and>
   2 \<in> likedBy ` {l \<in> set (likes sample_store). l_comment l = Some 31}"
proof -
  let ?v = "\<lambda>b. \<lparr>cv_id = 31, cv_content = ''nice'', cv_createdAt = 300, cv_likesCount = 2,
                 cv_owner = None, cv_isLiked = b\<rparr>"
  have h1: "getVideoComments (\<lambda>a. a) (\<lambda>docs opts. take 10 docs) (Some 2) (WellFormed 11)
      (None :: string option) None
              sample_store = Inr [?v True]"
    by (simp add: getVideoComments_def commentAggregate_def comment_stages_def call_defs
          sample_defs)
  have h2: "getVideoComments (\<lambda>a. a) (\<lambda>docs opts. take 10 docs) None (WellFormed 11)
      (None :: string option) None
              sample_store = Inr [?v False]"
    by (simp add: getVideoComments_def commentAggregate_def comment_stages_def call_defs
          sample_defs)
  have page_of: "set (id (take 10 docs)) \<subseteq> set docs" for docs :: "comment_view list"
    by (simp add: set_take_subset)
  have v1: "?v True \<in> set (id [?v True])" and v2: "?v False \<in> set (id [?v False])"
    by simp_all
  from likes_of_returned_comments [where docs_of = id, OF h1 page_of v1]
    likes_of_returned_comments [where docs_of = id, OF h2 page_of v2] h1 h2
  show ?thesis by simp
qed

text \<open>
  The owner join of the pipeline compares the comment's owner with a user field named
  \<open>_id,\<close> (comma included), which no user document has: for a comment that has an
  owner the join is empty.
\<close>

lemma comment_owner_join_is_empty:
  assumes "v \<in> set (commentAggregate req_user vid s)"
      and "\<forall>c \<in> set (comments s). c_owner c \<noteq> None"
  shows "cv_owner v = None"
proof -
  from assms(1) obtain c where c: "c \<in> set (comments s)" "v = comment_stages req_user s c"
    by (auto simp: commentAggregate_def)
  with assms(2) obtain i where "c_owner c = Some i" by auto
  with c show ?thesis
    by (simp add: comment_stages_def Let_def lookup_def user_field_def oid_value_def first_def)
qed

text \<open>
  C4. The claim is that every returned comment carries an owner object taken from the
  user whose id is the comment's owner. On the sample store the comment's owner is a user
  of the store, and the returned comment has no owner.
\<close>

theorem comment_owner_is_not_joined:
  "getVideoComments parseInt (\<lambda>docs opts. docs) (Some 1) (WellFormed 11) None None sample_store =
     Inr [\<lparr>cv_id = 31, cv_content = ''nice'', cv_createdAt = 300, cv_likesCount = 2,
           cv_owner = None, cv_isLiked = True\<rparr>] \<and>
   c_owner comment_ann = Some (u_id user_ann) \<and> user_ann \<in> set (users sample_store)"
  by (simp add: getVideoComments_def commentAggregate_def comment_stages_def call_defs
        sample_defs)

section \<open>Deleting a comment\<close>

text \<open>
  \<open>deleteComment\<close> never removes a Like: after it the likes collection has as many
  documents as before, whatever the outcome.
\<close>

lemma deleteComment_keeps_every_like:
  "length (likes (snd (deleteComment req_user commentId s))) = length (likes s)"
  by (auto simp: deleteComment_def Like_updateMany_def Let_def split: sum.splits option.splits)

text \<open>
  C2. The claim is that a successful delete also deletes every Like of the comment. On
  the sample store with the owner's own like as the only one: the owner deletes the
  comment, the comment is gone, and the like that references it is still there.
\<close>

theorem likes_survive_deleteComment:
  "deleteComment (Some 1) (WellFormed 31) (sample_store\<lparr>likes := [like_ann]\<rparr>) =
     (Inr (WellFormed 31), sample_store\<lparr>comments := [], likes := [like_ann]\<rparr>) \<and>
   l_comment like_ann = Some 31 \<and> c_owner comment_ann = Some 1"
  by (simp add: deleteComment_def Like_updateMany_def call_defs sample_defs)

section \<open>One malformed id out of two\<close>

text \<open>The guard on the two ids throws exactly when both of them are malformed.\<close>

lemma id_guard_needs_both_malformed:
  "(fst (addVideoToPlaylist now req_user playlistId videoId s) =
      Inl (ApiError 400 ''playlistId or videoId is invalid'')) =
   (\<not> isValidObjectId playlistId \<and> \<not> isValidObjectId videoId)"
  "(fst (removeVideoFromPlaylist now req_user playlistId videoId s) =
      Inl (ApiError 400 ''playlistId or videoId is invalid'')) =
   (\<not> isValidObjectId playlistId \<and> \<not> isValidObjectId videoId)"
  by (auto simp: addVideoToPlaylist_def removeVideoFromPlaylist_def findByIdAndUpdate_def
           findById_def isValidObjectId_def
           split: id_param.splits option.splits)

text \<open>
  C3. The claim is that \<open>addVideoToPlaylist\<close> and \<open>removeVideoFromPlaylist\<close> fail
  with the 400 "playlistId or videoId is invalid" error as soon as one id is malformed.
  The guard throws only when both are: with one malformed id the handler goes on to
  \<open>findById\<close>, and what fails is the cast inside it.
\<close>

theorem one_malformed_id_reaches_the_store:
  "fst (addVideoToPlaylist 900 (Some 1) (Malformed ''abc'') (WellFormed 11) sample_store) =
     Inl CastError \<and>
   fst (addVideoToPlaylist 900 (Some 1) (WellFormed 21) (Malformed ''abc'') sample_store) =
     Inl CastError \<and>
   fst (removeVideoFromPlaylist 900 (Some 1) (Malformed ''abc'') (WellFormed 11) sample_store) =
     Inl CastError \<and>
   fst (removeVideoFromPlaylist 900 (Some 1) (WellFormed 21) (Malformed ''abc'') sample_store) =
     Inl CastError \<and>
   fst (addVideoToPlaylist 900 (Some 1) (Malformed ''abc'') (Malformed ''xyz'') sample_store) =
     Inl (ApiError 400 ''playlistId or videoId is invalid'') \<and>
   fst (removeVideoFromPlaylist 900 (Some 1) (Malformed ''abc'') (Malformed ''xyz'') sample_store) =
     Inl (ApiError 400 ''playlistId or videoId is invalid'')"
  by (simp add: addVideoToPlaylist_def removeVideoFromPlaylist_def call_defs sample_defs)

end
